theory Spec2Isabelle
  imports Main
begin

section \<open>The student records store of Assignment_2.py\<close>

text \<open>
  The program keeps one SQLite table, created by
  \<^verbatim>\<open>CREATE TABLE IF NOT EXISTS students (id INTEGER PRIMARY KEY, name TEXT NOT NULL,
  grade TEXT NOT NULL, email TEXT NOT NULL)\<close>,
  and every function of the back end opens a connection, executes one statement, commits
  and closes. The functions are embedded below statement by statement. What the statements
  do is SQLite's part and the part of Python's sqlite3 module, which are not code of the
  repository; it is modelled here from their documented behaviour:
  \<^item> a row is the tuple Python receives, \<open>(id, name, grade, email)\<close>; a column value is
    \<open>None\<close> for SQL NULL and \<open>Some s\<close> for a text;
  \<^item> \<open>id INTEGER PRIMARY KEY\<close> is the rowid of the table: the rows are stored in the
    order of their rowids, which are distinct signed 64-bit integers, and a scan of the
    table (the \<open>SELECT\<close> of the program has no \<open>ORDER BY\<close>) visits them in that order;
  \<^item> an \<open>INSERT\<close> that gives no id takes 1 for an empty table and the largest rowid plus
    one otherwise; when the largest rowid is already \<open>2^63 - 1\<close> the engine draws up to
    100 random candidates in \<open>1 .. 2^62\<close>, takes the first that is unused, and fails when
    all of them are taken;
  \<^item> a Python integer outside the signed 64-bit range cannot be bound to a statement
    parameter (the sqlite3 module raises \<open>OverflowError\<close>);
  \<^item> an \<open>INSERT\<close>, \<open>UPDATE\<close> or \<open>DELETE\<close> runs in a transaction that the module opens and
    \<open>commit\<close> ends; the statement takes the write lock of the file and fails with
    \<open>database is locked\<close> when another connection holds it. A statement that fails on a
    constraint leaves its transaction, and so the lock, with its connection; the
    functions do not close the connection on that path, so the lock stays taken. Reading
    needs no write lock.
  A connection that a raising call left open stays open here: the model has no garbage
  collection and no end of the process, after which a lock would be free again. Failures
  to open or write the file itself are outside the model.
\<close>

subsection \<open>Values, rows, errors\<close>

type_synonym row = "int \<times> string option \<times> string option \<times> string option"

definition rid :: "row \<Rightarrow> int" where
  "rid r = fst r"

datatype pyval = PyNone | PyInt int | PyStr string

datatype py_error = OperationalError | IntegrityError | OverflowError | ValueError | EOFError

datatype out = Line string | RowLine row | Prompt string

text \<open>
  The world of the program: the committed content of \<open>students.db\<close> (\<open>None\<close> while the
  table does not exist), the number of connections opened and not closed, whether one of
  them holds the write lock of the file, what was written to standard output, and the
  stream of values that the engine's random generator will yield.
\<close>

record world =
  disk :: "row list option"
  open_conns :: nat
  write_lock :: bool
  stdout :: "out list"
  rowid_rand :: "nat \<Rightarrow> int"

text \<open>
  A connection works on its own copy of the table until \<open>commit\<close>, and knows whether it is
  in a write transaction, that is, whether the write lock is its own.
\<close>

record connection =
  content :: "row list option"
  in_write :: bool

definition MAX_ROWID :: int where
  "MAX_ROWID = 9223372036854775807"

definition in_int64 :: "int \<Rightarrow> bool" where
  "in_int64 k \<longleftrightarrow> - 9223372036854775808 \<le> k \<and> k \<le> MAX_ROWID"

subsection \<open>The statements\<close>

text \<open>
  The random rowids: each try consumes one value of the generator; the first argument is
  the number of tries left.
\<close>

fun random_rowid :: "nat \<Rightarrow> (nat \<Rightarrow> int) \<Rightarrow> row list \<Rightarrow> int option \<times> (nat \<Rightarrow> int)" where
  "random_rowid 0 draws rs = (None, draws)"
| "random_rowid (Suc n) draws rs =
     (if draws 0 mod 4611686018427387904 + 1 \<in> set (map rid rs)
      then random_rowid n (\<lambda>i. draws (Suc i)) rs
      else (Some (draws 0 mod 4611686018427387904 + 1), \<lambda>i. draws (Suc i)))"

definition new_rowid :: "(nat \<Rightarrow> int) \<Rightarrow> row list \<Rightarrow> int option \<times> (nat \<Rightarrow> int)" where
  "new_rowid draws rs =
     (if rs = [] then (Some 1, draws)
      else if rid (last rs) < MAX_ROWID then (Some (rid (last rs) + 1), draws)
      else random_rowid 100 draws rs)"

fun insert_row :: "row \<Rightarrow> row list \<Rightarrow> row list" where
  "insert_row r [] = [r]"
| "insert_row r (x # xs) = (if rid r < rid x then r # x # xs else x # insert_row r xs)"

text \<open>
  \<open>CREATE TABLE IF NOT EXISTS\<close> is not put into a transaction by the module: a missing
  table is written at once, an existing one is only looked at. (A lock is only ever taken
  by a statement that found the table, so creating the table does not meet one.)
\<close>

definition execute_create_table :: "connection \<Rightarrow> world \<Rightarrow> connection \<times> world" where
  "execute_create_table c w =
     (case content c of
        None \<Rightarrow> (c\<lparr>content := Some []\<rparr>, w\<lparr>disk := Some []\<rparr>)
      | Some rs \<Rightarrow> (c, w))"

text \<open>
  The three writing statements, in the order in which the module and the engine work:
  the statement is prepared (\<open>no such table\<close>), its parameters are bound
  (\<open>OverflowError\<close>), it takes the write lock (\<open>database is locked\<close>), and runs. When the
  insert finds no rowid the engine rolls the transaction back, which frees the lock; a
  \<open>NOT NULL\<close> failure undoes the statement only, and the lock stays with the connection.
\<close>

definition execute_insert ::
  "string option \<Rightarrow> string option \<Rightarrow> string option \<Rightarrow> connection \<Rightarrow> world
     \<Rightarrow> (py_error + connection) \<times> world" where
  "execute_insert n g e c w =
     (case content c of
        None \<Rightarrow> (Inl OperationalError, w)
      | Some rs \<Rightarrow>
          if write_lock w then (Inl OperationalError, w)
          else
            (case new_rowid (rowid_rand w) rs of
               (None, draws) \<Rightarrow> (Inl OperationalError, w\<lparr>rowid_rand := draws\<rparr>)
             | (Some k, draws) \<Rightarrow>
                 if n = None \<or> g = None \<or> e = None
                 then (Inl IntegrityError, w\<lparr>write_lock := True, rowid_rand := draws\<rparr>)
                 else (Inr (c\<lparr>content := Some (insert_row (k, n, g, e) rs), in_write := True\<rparr>),
                       w\<lparr>write_lock := True, rowid_rand := draws\<rparr>)))"

definition execute_select :: "connection \<Rightarrow> py_error + row list" where
  "execute_select c = (case content c of None \<Rightarrow> Inl OperationalError | Some rs \<Rightarrow> Inr rs)"

definition set_fields :: "int \<Rightarrow> string option \<Rightarrow> string option \<Rightarrow> string option \<Rightarrow> row \<Rightarrow> row" where
  "set_fields k n g e r = (if rid r = k then (rid r, n, g, e) else r)"

definition execute_update ::
  "string option \<Rightarrow> string option \<Rightarrow> string option \<Rightarrow> int \<Rightarrow> connection \<Rightarrow> world
     \<Rightarrow> (py_error + connection) \<times> world" where
  "execute_update n g e k c w =
     (case content c of
        None \<Rightarrow> (Inl OperationalError, w)
      | Some rs \<Rightarrow>
          if \<not> in_int64 k then (Inl OverflowError, w)
          else if write_lock w then (Inl OperationalError, w)
          else if k \<in> set (map rid rs) \<and> (n = None \<or> g = None \<or> e = None)
          then (Inl IntegrityError, w\<lparr>write_lock := True\<rparr>)
          else (Inr (c\<lparr>content := Some (map (set_fields k n g e) rs), in_write := True\<rparr>),
                w\<lparr>write_lock := True\<rparr>))"

definition execute_delete ::
  "int \<Rightarrow> connection \<Rightarrow> world \<Rightarrow> (py_error + connection) \<times> world" where
  "execute_delete k c w =
     (case content c of
        None \<Rightarrow> (Inl OperationalError, w)
      | Some rs \<Rightarrow>
          if \<not> in_int64 k then (Inl OverflowError, w)
          else if write_lock w then (Inl OperationalError, w)
          else (Inr (c\<lparr>content := Some (filter (\<lambda>r. rid r \<noteq> k) rs), in_write := True\<rparr>),
                w\<lparr>write_lock := True\<rparr>))"

subsection \<open>Connections\<close>

definition connect_db :: "world \<Rightarrow> connection \<times> world" where
  "connect_db w = (\<lparr>content = disk w, in_write = False\<rparr>, w\<lparr>open_conns := Suc (open_conns w)\<rparr>)"

text \<open>\<open>commit\<close> ends the connection's write transaction, if it is in one.\<close>

definition commit :: "connection \<Rightarrow> world \<Rightarrow> world" where
  "commit c w = (if in_write c then w\<lparr>disk := content c, write_lock := False\<rparr> else w)"

definition close :: "world \<Rightarrow> world" where
  "close w = w\<lparr>open_conns := open_conns w - 1\<rparr>"

definition py_print :: "out \<Rightarrow> world \<Rightarrow> world" where
  "py_print x w = w\<lparr>stdout := stdout w @ [x]\<rparr>"

subsection \<open>The back end\<close>

text \<open>
  An exception leaves the function at the statement that raised: \<open>commit\<close> and \<open>close\<close>
  are not reached, and the world is as that statement left it.
\<close>

definition setup_table :: "world \<Rightarrow> (py_error + pyval) \<times> world" where
  "setup_table w =
     (let (database, w1) = connect_db w;
          (database', w2) = execute_create_table database w1
      in (Inr PyNone, close (commit database' w2)))"

definition add_student ::
  "string option \<Rightarrow> string option \<Rightarrow> string option \<Rightarrow> world \<Rightarrow> (py_error + pyval) \<times> world" where
  "add_student n g e w =
     (let (database, w1) = connect_db w in
      case execute_insert n g e database w1 of
        (Inl err, w2) \<Rightarrow> (Inl err, w2)
      | (Inr database', w2) \<Rightarrow> (Inr PyNone, close (commit database' w2)))"

fun print_rows :: "row list \<Rightarrow> world \<Rightarrow> world" where
  "print_rows [] w = w"
| "print_rows (r # rs) w = print_rows rs (py_print (RowLine r) w)"

definition view_students_db :: "world \<Rightarrow> (py_error + pyval) \<times> world" where
  "view_students_db w =
     (let (database, w1) = connect_db w in
      case execute_select database of
        Inl err \<Rightarrow> (Inl err, w1)
      | Inr rows \<Rightarrow> (Inr PyNone, close (print_rows rows w1)))"

definition update_student ::
  "int \<Rightarrow> string option \<Rightarrow> string option \<Rightarrow> string option \<Rightarrow> world \<Rightarrow> (py_error + pyval) \<times> world" where
  "update_student student_id n g e w =
     (let (database, w1) = connect_db w in
      case execute_update n g e student_id database w1 of
        (Inl err, w2) \<Rightarrow> (Inl err, w2)
      | (Inr database', w2) \<Rightarrow> (Inr PyNone, close (commit database' w2)))"

definition delete_student :: "int \<Rightarrow> world \<Rightarrow> (py_error + pyval) \<times> world" where
  "delete_student student_id w =
     (let (database, w1) = connect_db w in
      case execute_delete student_id database w1 of
        (Inl err, w2) \<Rightarrow> (Inl err, w2)
      | (Inr database', w2) \<Rightarrow> (Inr PyNone, close (commit database' w2)))"

subsection \<open>Sequences of calls\<close>

datatype op =
    EnsureSchema
  | Create "string option" "string option" "string option"
  | ReadAll
  | Update int "string option" "string option" "string option"
  | Delete int

fun run_op :: "op \<Rightarrow> world \<Rightarrow> (py_error + pyval) \<times> world" where
  "run_op EnsureSchema w = setup_table w"
| "run_op (Create n g e) w = add_student n g e w"
| "run_op ReadAll w = view_students_db w"
| "run_op (Update k n g e) w = update_student k n g e w"
| "run_op (Delete k) w = delete_student k w"

text \<open>
  Calls made one after the other in one process. A call that raised has left its
  connection open, and with it the write lock if it had taken it; the next call finds
  the world so.
\<close>

fun run_ops :: "op list \<Rightarrow> world \<Rightarrow> world" where
  "run_ops [] w = w"
| "run_ops (x # xs) w = run_ops xs (snd (run_op x w))"

definition ids :: "world \<Rightarrow> int list" where
  "ids w = (case disk w of None \<Rightarrow> [] | Some rs \<Rightarrow> map rid rs)"


text \<open>
  The table as SQLite keeps it: rowids strictly ascending in storage order and within the
  signed 64-bit range.
\<close>

definition table_ok :: "row list \<Rightarrow> bool" where
  "table_ok rs \<longleftrightarrow> sorted_wrt (<) (map rid rs) \<and> list_all (\<lambda>r. in_int64 (rid r)) rs"

definition store_ok :: "world \<Rightarrow> bool" where
  "store_ok w = (case disk w of None \<Rightarrow> True | Some rs \<Rightarrow> table_ok rs)"

definition not_null_row :: "row \<Rightarrow> bool" where
  "not_null_row r = (case r of (k, n, g, e) \<Rightarrow> n \<noteq> None \<and> g \<noteq> None \<and> e \<noteq> None)"

definition not_null_store :: "world \<Rightarrow> bool" where
  "not_null_store w = (case disk w of None \<Rightarrow> True | Some rs \<Rightarrow> list_all not_null_row rs)"

definition fresh :: world where
  "fresh = \<lparr>disk = None, open_conns = 0, write_lock = False, stdout = [], rowid_rand = (\<lambda>i. 0)\<rparr>"


text \<open>Calling \<open>setup_table\<close> a number of times in a row.\<close>

fun setup_table_times :: "nat \<Rightarrow> world \<Rightarrow> world" where
  "setup_table_times 0 w = w"
| "setup_table_times (Suc n) w = setup_table_times n (snd (setup_table w))"

subsection \<open>Some concrete stores\<close>

definition store0 :: world where
  "store0 = \<lparr>disk = Some [], open_conns = 0, write_lock = False, stdout = [],
             rowid_rand = (\<lambda>i. 0)\<rparr>"

definition store1 :: world where
  "store1 = \<lparr>disk = Some [(1, Some ''Ann'', Some ''A'', Some ''ann@x.com'')],
             open_conns = 0, write_lock = False, stdout = [], rowid_rand = (\<lambda>i. 0)\<rparr>"

definition store3 :: world where
  "store3 = \<lparr>disk = Some [(1, Some ''Ann'', Some ''A'', Some ''ann@x.com''),
                           (2, Some ''Bob'', Some ''B'', Some ''bob@x.com''),
                           (3, Some ''Cy'', Some ''C'', Some ''cy@x.com'')],
             open_conns = 0, write_lock = False, stdout = [], rowid_rand = (\<lambda>i. 0)\<rparr>"

text \<open>
  The store left by a Create with a null name on \<open>store1\<close>: the call raised, its connection
  is open and holds the write lock.
\<close>

definition store1_leaked :: world where
  "store1_leaked = snd (add_student None (Some ''B'') (Some ''bob@x.com'') store1)"

text \<open>A table whose largest rowid is \<open>2^63 - 2\<close>; the generator's next value is 4.\<close>

definition store_high :: world where
  "store_high = \<lparr>disk = Some [(9223372036854775806, Some ''Ann'', Some ''A'', Some ''ann@x.com'')],
             open_conns = 0, write_lock = False, stdout = [], rowid_rand = (\<lambda>i. 4)\<rparr>"

section \<open>The menu loop\<close>

text \<open>
  \<open>main\<close> reads lines from standard input, here the list of the lines still to come;
  \<open>input\<close> at the end of the input raises \<open>EOFError\<close>. A text is a list of code points
  below 256. \<open>strip\<close> removes the white space of Python's \<open>str.strip\<close> in that range, which
  besides the ASCII white space is U+0085 and U+00A0; \<open>lower\<close> is \<open>str.lower\<close> there.
  \<open>py_int\<close> is Python's \<open>int\<close> on a string, \<open>None\<close> for its \<open>ValueError\<close>: white space
  around, an optional sign, decimal digits (below 256 these are \<open>0\<close> to \<open>9\<close> only) with
  single underscores allowed between digits, and (as Python 3.11 has it) at most 4300
  digits.
\<close>

definition is_space :: "char \<Rightarrow> bool" where
  "is_space c \<longleftrightarrow>
     c \<in> set [CHR 0x09, CHR 0x0A, CHR 0x0B, CHR 0x0C, CHR 0x0D,
              CHR 0x1C, CHR 0x1D, CHR 0x1E, CHR 0x1F, CHR 0x20, CHR 0x85, CHR 0xA0]"

definition strip :: "string \<Rightarrow> string" where
  "strip s = rev (dropWhile is_space (rev (dropWhile is_space s)))"

definition upper_chars :: string where
  "upper_chars = ''ABCDEFGHIJKLMNOPQRSTUVWXYZ'' @
       [CHR 0xC0, CHR 0xC1, CHR 0xC2, CHR 0xC3, CHR 0xC4, CHR 0xC5, CHR 0xC6, CHR 0xC7, CHR 0xC8, CHR 0xC9,
        CHR 0xCA, CHR 0xCB, CHR 0xCC, CHR 0xCD, CHR 0xCE, CHR 0xCF, CHR 0xD0, CHR 0xD1, CHR 0xD2, CHR 0xD3,
        CHR 0xD4, CHR 0xD5, CHR 0xD6, CHR 0xD8, CHR 0xD9, CHR 0xDA, CHR 0xDB, CHR 0xDC, CHR 0xDD, CHR 0xDE]"

definition lower_chars :: string where
  "lower_chars = ''abcdefghijklmnopqrstuvwxyz'' @
       [CHR 0xE0, CHR 0xE1, CHR 0xE2, CHR 0xE3, CHR 0xE4, CHR 0xE5, CHR 0xE6, CHR 0xE7, CHR 0xE8, CHR 0xE9,
        CHR 0xEA, CHR 0xEB, CHR 0xEC, CHR 0xED, CHR 0xEE, CHR 0xEF, CHR 0xF0, CHR 0xF1, CHR 0xF2, CHR 0xF3,
        CHR 0xF4, CHR 0xF5, CHR 0xF6, CHR 0xF8, CHR 0xF9, CHR 0xFA, CHR 0xFB, CHR 0xFC, CHR 0xFD, CHR 0xFE]"

definition lower_char :: "char \<Rightarrow> char" where
  "lower_char c = (case map_of (zip upper_chars lower_chars) c of None \<Rightarrow> c | Some d \<Rightarrow> d)"

definition lower :: "string \<Rightarrow> string" where
  "lower s = map lower_char s"

definition is_digit :: "char \<Rightarrow> bool" where
  "is_digit c \<longleftrightarrow> c \<in> set ''0123456789''"

definition digit_val :: "char \<Rightarrow> nat" where
  "digit_val c = length (takeWhile (\<lambda>d. d \<noteq> c) ''0123456789'')"

fun digits_ok :: "string \<Rightarrow> bool" where
  "digits_ok [] = False"
| "digits_ok [c] = is_digit c"
| "digits_ok (c # d # r) =
     (is_digit c \<and> (if d = CHR ''_'' then digits_ok r else digits_ok (d # r)))"

definition digits_val :: "string \<Rightarrow> nat" where
  "digits_val s = foldl (\<lambda>a c. 10 * a + digit_val c) 0 (filter (\<lambda>c. c \<noteq> CHR ''_'') s)"

definition MAX_STR_DIGITS :: nat where
  "MAX_STR_DIGITS = 4300"

text \<open>The digits after the sign: their value, or \<open>None\<close> when \<open>int\<close> refuses them.\<close>

definition py_int_digits :: "string \<Rightarrow> nat option" where
  "py_int_digits s =
     (if digits_ok s \<and> length (filter is_digit s) \<le> MAX_STR_DIGITS
      then Some (digits_val s) else None)"

definition py_int :: "string \<Rightarrow> int option" where
  "py_int s =
     (case strip s of
        [] \<Rightarrow> None
      | c # r \<Rightarrow>
          if c = CHR ''-'' then map_option (\<lambda>v. - int v) (py_int_digits r)
          else if c = CHR ''+'' then map_option int (py_int_digits r)
          else map_option int (py_int_digits (c # r)))"

text \<open>\<open>str\<close> of an integer, for the f-string of the delete prompt.\<close>

function str_nat :: "nat \<Rightarrow> string" where
  "str_nat n =
     (if n < 10 then [''0123456789'' ! n] else str_nat (n div 10) @ [''0123456789'' ! (n mod 10)])"
  by pat_completeness auto
termination
  by (relation "measure id") auto

declare str_nat.simps [simp del]

definition str_int :: "int \<Rightarrow> string" where
  "str_int i = (if i < 0 then CHR ''-'' # str_nat (nat (- i)) else str_nat (nat i))"

definition py_input ::
  "string \<Rightarrow> string list \<Rightarrow> world \<Rightarrow> (py_error + string \<times> string list) \<times> world" where
  "py_input prompt ins w =
     (case ins of
        [] \<Rightarrow> (Inl EOFError, py_print (Prompt prompt) w)
      | l # rest \<Rightarrow> (Inr (l, rest), py_print (Prompt prompt) w))"

definition print_menu :: "world \<Rightarrow> world" where
  "print_menu w =
     (let w = py_print (Line (CHR 0x0A # ''--- Student Database Menu ---'')) w;
          w = py_print (Line ''1) Add students'') w;
          w = py_print (Line ''2) View students'') w;
          w = py_print (Line ''3) Update students'') w;
          w = py_print (Line ''4) Delete Students'') w;
          w = py_print (Line ''5) Exit'') w
      in w)"

definition user_choice :: "string list \<Rightarrow> world \<Rightarrow> (py_error + string \<times> string list) \<times> world" where
  "user_choice ins w =
     (case py_input ''Choose an option (1-5): '' ins w of
        (Inl err, w1) \<Rightarrow> (Inl err, w1)
      | (Inr (l, rest), w1) \<Rightarrow> (Inr (strip l, rest), w1))"

text \<open>
  The branches of the loop body. Each returns whether the loop is done, the input left, and
  the world; \<open>Inl\<close> is an exception that leaves \<open>main\<close>. In the branches 3 and 4 the
  \<open>ValueError\<close> of \<open>int\<close> is caught; no other exception is.
\<close>

definition choice_add :: "string list \<Rightarrow> world \<Rightarrow> (py_error + bool) \<times> string list \<times> world" where
  "choice_add ins w =
     (case py_input ''Name: '' ins w of
        (Inl err, w1) \<Rightarrow> (Inl err, ins, w1)
      | (Inr (l1, ins1), w1) \<Rightarrow>
     (case py_input ''Grade: '' ins1 w1 of
        (Inl err, w2) \<Rightarrow> (Inl err, ins1, w2)
      | (Inr (l2, ins2), w2) \<Rightarrow>
     (case py_input ''Email: '' ins2 w2 of
        (Inl err, w3) \<Rightarrow> (Inl err, ins2, w3)
      | (Inr (l3, ins3), w3) \<Rightarrow>
     (case add_student (Some (strip l1)) (Some (strip l2)) (Some (strip l3)) w3 of
        (Inl err, w4) \<Rightarrow> (Inl err, ins3, w4)
      | (Inr v, w4) \<Rightarrow> (Inr False, ins3, py_print (Line ''Student Added'') w4)))))"

definition choice_view :: "string list \<Rightarrow> world \<Rightarrow> (py_error + bool) \<times> string list \<times> world" where
  "choice_view ins w =
     (case view_students_db w of
        (Inl err, w1) \<Rightarrow> (Inl err, ins, w1)
      | (Inr v, w1) \<Rightarrow> (Inr False, ins, w1))"

definition choice_update :: "string list \<Rightarrow> world \<Rightarrow> (py_error + bool) \<times> string list \<times> world" where
  "choice_update ins w =
     (case py_input ''Student ID to update: '' ins w of
        (Inl err, w1) \<Rightarrow> (Inl err, ins, w1)
      | (Inr (l0, ins0), w1) \<Rightarrow>
     (case py_int (strip l0) of
        None \<Rightarrow> (Inr False, ins0, py_print (Line ''Invalid ID. Must be a number.'') w1)
      | Some student_id \<Rightarrow>
     (case py_input ''New name: '' ins0 w1 of
        (Inl err, w2) \<Rightarrow> (Inl err, ins0, w2)
      | (Inr (l1, ins1), w2) \<Rightarrow>
     (case py_input ''New grade: '' ins1 w2 of
        (Inl err, w3) \<Rightarrow> (Inl err, ins1, w3)
      | (Inr (l2, ins2), w3) \<Rightarrow>
     (case py_input ''New email: '' ins2 w3 of
        (Inl err, w4) \<Rightarrow> (Inl err, ins2, w4)
      | (Inr (l3, ins3), w4) \<Rightarrow>
     (case update_student student_id (Some (strip l1)) (Some (strip l2)) (Some (strip l3)) w4 of
        (Inl err, w5) \<Rightarrow> (Inl err, ins3, w5)
      | (Inr v, w5) \<Rightarrow> (Inr False, ins3, py_print (Line ''Student updated.'') w5)))))))"

definition choice_delete :: "string list \<Rightarrow> world \<Rightarrow> (py_error + bool) \<times> string list \<times> world" where
  "choice_delete ins w =
     (case py_input ''Student ID to delete: '' ins w of
        (Inl err, w1) \<Rightarrow> (Inl err, ins, w1)
      | (Inr (l0, ins0), w1) \<Rightarrow>
     (case py_int (strip l0) of
        None \<Rightarrow> (Inr False, ins0, py_print (Line ''Invalid ID. Must be a number.'') w1)
      | Some student_id \<Rightarrow>
     (case py_input (''Delete student '' @ str_int student_id @ ''? (y/n): '') ins0 w1 of
        (Inl err, w2) \<Rightarrow> (Inl err, ins0, w2)
      | (Inr (l1, ins1), w2) \<Rightarrow>
          if lower (strip l1) = ''y''
          then (case delete_student student_id w2 of
                  (Inl err, w3) \<Rightarrow> (Inl err, ins1, w3)
                | (Inr v, w3) \<Rightarrow> (Inr False, ins1, py_print (Line ''Student deleted.'') w3))
          else (Inr False, ins1, py_print (Line ''Delete canceled.'') w2))))"

definition dispatch :: "string \<Rightarrow> string list \<Rightarrow> world \<Rightarrow> (py_error + bool) \<times> string list \<times> world" where
  "dispatch choice ins w =
     (if choice = ''1'' then choice_add ins w
      else if choice = ''2'' then choice_view ins w
      else if choice = ''3'' then choice_update ins w
      else if choice = ''4'' then choice_delete ins w
      else if choice = ''5'' then (Inr True, ins, py_print (Line ''Exiting Program...'') w)
      else (Inr False, ins, py_print (Line ''Invalid input, Try again.'') w))"

text \<open>The \<open>while not done\<close> loop; \<open>main\<close> runs it after \<open>setup_table\<close>.\<close>

function main_loop :: "string list \<Rightarrow> world \<Rightarrow> (py_error + pyval) \<times> world" where
  "main_loop ins w =
     (case user_choice ins (print_menu w) of
        (Inl err, w1) \<Rightarrow> (Inl err, w1)
      | (Inr (choice, rest), w1) \<Rightarrow>
          (case dispatch choice rest w1 of
             (Inl err, rest', w2) \<Rightarrow> (Inl err, w2)
           | (Inr finished, rest', w2) \<Rightarrow>
               if finished then (Inr PyNone, w2) else main_loop rest' w2))"
  by pat_completeness auto
termination
  apply (relation "measure (\<lambda>(ins, w). length ins)")
   apply simp
  apply (auto simp: user_choice_def py_input_def dispatch_def choice_add_def choice_view_def
      choice_update_def choice_delete_def
      split: if_splits list.splits option.splits sum.splits prod.splits)
  done

declare main_loop.simps [simp del]

definition main :: "string list \<Rightarrow> world \<Rightarrow> (py_error + pyval) \<times> world" where
  "main ins w =
     (case setup_table w of
        (Inl err, w1) \<Rightarrow> (Inl err, w1)
      | (Inr v, w1) \<Rightarrow> main_loop ins w1)"

section \<open>Properties\<close>

subsection \<open>What each call does to the world\<close>

lemma print_rows_stdout: "print_rows rs w = w\<lparr>stdout := stdout w @ map RowLine rs\<rparr>"
  by (induction rs arbitrary: w) (simp_all add: py_print_def)

lemma set_insert_row: "set (insert_row r rs) = insert r (set rs)"
  by (induction rs) auto

lemma insert_row_last: "\<forall>x \<in> set rs. rid x < rid r \<Longrightarrow> insert_row r rs = rs @ [r]"
  by (induction rs) auto

lemma sorted_insert_row:
  "sorted_wrt (<) (map rid rs) \<Longrightarrow> rid r \<notin> set (map rid rs) \<Longrightarrow> sorted_wrt (<) (map rid (insert_row r rs))"
  by (induction rs) (auto simp: set_insert_row)

lemma sorted_last_max:
  "sorted_wrt (<) (map rid rs) \<Longrightarrow> x \<in> set rs \<Longrightarrow> rid x \<le> rid (last rs)"
proof (induction rs)
  case Nil
  then show ?case by simp
next
  case (Cons a rs)
  show ?case
  proof (cases "rs = []")
    case True
    with Cons.prems show ?thesis by simp
  next
    case False
    then have "last rs \<in> set rs" by simp
    with Cons.prems(1) have lt: "rid a < rid (last rs)" by auto
    show ?thesis
    proof (cases "x = a")
      case True
      with lt False show ?thesis by simp
    next
      case F: False
      with Cons.prems have "x \<in> set rs" "sorted_wrt (<) (map rid rs)" by auto
      with Cons.IH False show ?thesis by simp
    qed
  qed
qed

lemma random_rowid_fresh:
  "random_rowid m draws rs = (Some k, d) \<Longrightarrow> k \<notin> set (map rid rs) \<and> in_int64 k"
proof (induction m arbitrary: draws)
  case 0
  then show ?case by simp
next
  case (Suc m)
  show ?case
  proof (cases "draws 0 mod 4611686018427387904 + 1 \<in> set (map rid rs)")
    case True
    with Suc.prems have "random_rowid m (\<lambda>i. draws (Suc i)) rs = (Some k, d)" by simp
    then show ?thesis by (rule Suc.IH)
  next
    case False
    with Suc.prems have k: "k = draws 0 mod 4611686018427387904 + 1" by simp
    have "0 \<le> draws 0 mod 4611686018427387904" "draws 0 mod 4611686018427387904 < 4611686018427387904"
      by simp_all
    with k False show ?thesis by (simp add: in_int64_def MAX_ROWID_def)
  qed
qed

lemma largest_plus_one_fresh:
  assumes "table_ok rs" "rs \<noteq> []"
  shows "\<forall>x \<in> set rs. rid x < rid (last rs) + 1"
  using sorted_last_max assms by (fastforce simp: table_ok_def)

lemma new_rowid_fresh:
  assumes "table_ok rs" "new_rowid draws rs = (Some k, d)"
  shows "k \<notin> set (map rid rs) \<and> in_int64 k"
proof (cases "rs = []")
  case True
  with assms show ?thesis by (simp add: new_rowid_def in_int64_def MAX_ROWID_def)
next
  case False
  show ?thesis
  proof (cases "rid (last rs) < MAX_ROWID")
    case True
    have k: "k = rid (last rs) + 1" using assms(2) False True by (simp add: new_rowid_def)
    have "\<forall>x \<in> set rs. rid x < k"
      using largest_plus_one_fresh[OF assms(1) False] k by simp
    moreover have "in_int64 (rid (last rs))"
      using assms(1) False by (auto simp: table_ok_def list_all_iff)
    ultimately show ?thesis using True k by (auto simp: in_int64_def)
  next
    case F2: False
    then show ?thesis using assms(2) False random_rowid_fresh by (simp add: new_rowid_def)
  qed
qed

lemma new_rowid_sequential:
  assumes "rs = [] \<or> rid (last rs) < MAX_ROWID"
  shows "new_rowid draws rs = (Some (if rs = [] then 1 else rid (last rs) + 1), draws)"
  using assms by (auto simp: new_rowid_def)

lemma add_student_None:
  "disk w = None \<Longrightarrow> add_student n g e w = (Inl OperationalError, w\<lparr>open_conns := Suc (open_conns w)\<rparr>)"
  by (simp add: add_student_def connect_db_def execute_insert_def)

lemma add_student_locked:
  "disk w = Some rs \<Longrightarrow> write_lock w \<Longrightarrow>
     add_student n g e w = (Inl OperationalError, w\<lparr>open_conns := Suc (open_conns w)\<rparr>)"
  by (simp add: add_student_def connect_db_def execute_insert_def)

lemma add_student_Some:
  "disk w = Some rs \<Longrightarrow> \<not> write_lock w \<Longrightarrow> add_student n g e w =
     (case new_rowid (rowid_rand w) rs of
        (None, d) \<Rightarrow> (Inl OperationalError, w\<lparr>open_conns := Suc (open_conns w), rowid_rand := d\<rparr>)
      | (Some k, d) \<Rightarrow>
          if n = None \<or> g = None \<or> e = None
          then (Inl IntegrityError,
                w\<lparr>open_conns := Suc (open_conns w), write_lock := True, rowid_rand := d\<rparr>)
          else (Inr PyNone, w\<lparr>disk := Some (insert_row (k, n, g, e) rs), rowid_rand := d\<rparr>))"
  by (auto simp: add_student_def connect_db_def execute_insert_def close_def commit_def
      split: option.splits prod.splits)

lemma view_None:
  "disk w = None \<Longrightarrow> view_students_db w = (Inl OperationalError, w\<lparr>open_conns := Suc (open_conns w)\<rparr>)"
  by (simp add: view_students_db_def connect_db_def execute_select_def)

lemma view_Some:
  "disk w = Some rs \<Longrightarrow> view_students_db w = (Inr PyNone, w\<lparr>stdout := stdout w @ map RowLine rs\<rparr>)"
  by (simp add: view_students_db_def connect_db_def execute_select_def close_def print_rows_stdout)

lemma update_None:
  "disk w = None \<Longrightarrow> update_student k n g e w = (Inl OperationalError, w\<lparr>open_conns := Suc (open_conns w)\<rparr>)"
  by (simp add: update_student_def connect_db_def execute_update_def)

lemma update_Some:
  "disk w = Some rs \<Longrightarrow> update_student k n g e w =
     (if \<not> in_int64 k then (Inl OverflowError, w\<lparr>open_conns := Suc (open_conns w)\<rparr>)
      else if write_lock w then (Inl OperationalError, w\<lparr>open_conns := Suc (open_conns w)\<rparr>)
      else if k \<in> set (map rid rs) \<and> (n = None \<or> g = None \<or> e = None)
      then (Inl IntegrityError, w\<lparr>open_conns := Suc (open_conns w), write_lock := True\<rparr>)
      else (Inr PyNone, w\<lparr>disk := Some (map (set_fields k n g e) rs)\<rparr>))"
  by (auto simp: update_student_def connect_db_def execute_update_def close_def commit_def)

lemma delete_None:
  "disk w = None \<Longrightarrow> delete_student k w = (Inl OperationalError, w\<lparr>open_conns := Suc (open_conns w)\<rparr>)"
  by (simp add: delete_student_def connect_db_def execute_delete_def)

lemma delete_Some:
  "disk w = Some rs \<Longrightarrow> delete_student k w =
     (if \<not> in_int64 k then (Inl OverflowError, w\<lparr>open_conns := Suc (open_conns w)\<rparr>)
      else if write_lock w then (Inl OperationalError, w\<lparr>open_conns := Suc (open_conns w)\<rparr>)
      else (Inr PyNone, w\<lparr>disk := Some (filter (\<lambda>r. rid r \<noteq> k) rs)\<rparr>))"
  by (auto simp: delete_student_def connect_db_def execute_delete_def close_def commit_def)

lemma setup_table_eq:
  "setup_table w = (Inr PyNone, w\<lparr>disk := Some (case disk w of None \<Rightarrow> [] | Some rs \<Rightarrow> rs)\<rparr>)"
  by (simp add: setup_table_def connect_db_def execute_create_table_def close_def commit_def
      split: option.splits)

lemma map_set_fields_absent: "k \<notin> set (map rid rs) \<Longrightarrow> map (set_fields k n g e) rs = rs"
  by (induction rs) (auto simp: set_fields_def)

lemma rid_set_fields: "rid (set_fields k n g e r) = rid r"
  by (simp add: set_fields_def rid_def)

lemma table_ok_insert:
  "table_ok rs \<Longrightarrow> rid r \<notin> set (map rid rs) \<Longrightarrow> in_int64 (rid r) \<Longrightarrow> table_ok (insert_row r rs)"
  by (simp add: table_ok_def sorted_insert_row list_all_iff set_insert_row)

lemma table_ok_update: "table_ok rs \<Longrightarrow> table_ok (map (set_fields k n g e) rs)"
  by (simp add: table_ok_def list_all_iff rid_set_fields comp_def)

lemma table_ok_delete: "table_ok rs \<Longrightarrow> table_ok (filter (\<lambda>r. rid r \<noteq> k) rs)"
  by (simp add: table_ok_def list_all_iff sorted_wrt_filter sorted_wrt_map)

text \<open>What a Create, an Update and a Delete can do to the table.\<close>

lemma add_student_disk:
  assumes "disk w = Some rs"
  shows "disk (snd (add_student n g e w)) = Some rs
       \<or> (\<exists>k d. new_rowid (rowid_rand w) rs = (Some k, d) \<and> n \<noteq> None \<and> g \<noteq> None \<and> e \<noteq> None
            \<and> disk (snd (add_student n g e w)) = Some (insert_row (k, n, g, e) rs))"
proof (cases "write_lock w")
  case True
  then show ?thesis by (simp add: add_student_locked[OF assms] assms)
next
  case False
  show ?thesis
    by (cases "new_rowid (rowid_rand w) rs")
      (auto simp: add_student_Some[OF assms False] assms split: option.splits)
qed

lemma update_student_disk:
  assumes "disk w = Some rs"
  shows "disk (snd (update_student k n g e w)) = Some rs
       \<or> ((k \<in> set (map rid rs) \<longrightarrow> n \<noteq> None \<and> g \<noteq> None \<and> e \<noteq> None)
            \<and> disk (snd (update_student k n g e w)) = Some (map (set_fields k n g e) rs))"
  by (auto simp: update_Some[OF assms] assms)

lemma delete_student_disk:
  assumes "disk w = Some rs"
  shows "disk (snd (delete_student k w)) = Some rs
       \<or> disk (snd (delete_student k w)) = Some (filter (\<lambda>r. rid r \<noteq> k) rs)"
  by (auto simp: delete_Some[OF assms] assms)

lemma store_ok_run_op: "store_ok w \<Longrightarrow> store_ok (snd (run_op x w))"
proof (cases "disk w")
  case None
  assume "store_ok w"
  show ?thesis
    by (cases x) (simp_all add: None add_student_None view_None update_None delete_None
        setup_table_eq store_ok_def table_ok_def)
next
  case (Some rs)
  assume "store_ok w"
  then have ok: "table_ok rs" by (simp add: store_ok_def Some)
  show ?thesis
  proof (cases x)
    case EnsureSchema
    then show ?thesis using ok by (simp add: setup_table_eq Some store_ok_def)
  next
    case (Create n g e)
    from add_student_disk[OF Some, of n g e] show ?thesis
    proof
      assume "disk (snd (add_student n g e w)) = Some rs"
      with ok Create show ?thesis by (simp add: store_ok_def)
    next
      assume "\<exists>k d. new_rowid (rowid_rand w) rs = (Some k, d) \<and> n \<noteq> None \<and> g \<noteq> None \<and> e \<noteq> None
            \<and> disk (snd (add_student n g e w)) = Some (insert_row (k, n, g, e) rs)"
      then obtain k d where kd: "new_rowid (rowid_rand w) rs = (Some k, d)"
        "disk (snd (add_student n g e w)) = Some (insert_row (k, n, g, e) rs)" by blast
      from new_rowid_fresh[OF ok kd(1)] have "table_ok (insert_row (k, n, g, e) rs)"
        by (intro table_ok_insert[OF ok]) (simp_all add: rid_def)
      with kd(2) Create show ?thesis by (simp add: store_ok_def)
    qed
  next
    case ReadAll
    then show ?thesis using ok by (simp add: view_Some[OF Some] Some store_ok_def)
  next
    case (Update k n g e)
    then show ?thesis
      using ok update_student_disk[OF Some, of k n g e]
      by (auto simp: store_ok_def table_ok_update)
  next
    case (Delete k)
    then show ?thesis
      using ok delete_student_disk[OF Some, of k]
      by (auto simp: store_ok_def table_ok_delete)
  qed
qed

lemma store_ok_run_ops: "store_ok w \<Longrightarrow> store_ok (run_ops xs w)"
  by (induction xs arbitrary: w) (simp_all add: store_ok_run_op)

lemma random_rowid_numeral:
  "random_rowid (numeral m) draws rs =
     (if draws 0 mod 4611686018427387904 + 1 \<in> set (map rid rs)
      then random_rowid (pred_numeral m) (\<lambda>i. draws (Suc i)) rs
      else (Some (draws 0 mod 4611686018427387904 + 1), \<lambda>i. draws (Suc i)))"
  by (simp add: numeral_eq_Suc)

lemmas eval_defs = add_student_def view_students_db_def update_student_def delete_student_def
  setup_table_def connect_db_def commit_def close_def execute_insert_def execute_select_def
  execute_update_def execute_delete_def execute_create_table_def new_rowid_def random_rowid_numeral
  rid_def MAX_ROWID_def in_int64_def py_print_def set_fields_def table_ok_def store_ok_def ids_def
  not_null_store_def not_null_row_def

lemma store1_leaked_eq: "store1_leaked = store1\<lparr>open_conns := 1, write_lock := True\<rparr>"
  by (simp add: store1_leaked_def store1_def eval_defs)

subsection \<open>Create\<close>

lemma length_insert_row: "length (insert_row r rs) = Suc (length rs)"
  by (induction rs) auto

lemma filter_insert_row:
  "P r \<Longrightarrow> \<forall>x \<in> set rs. \<not> P x \<Longrightarrow> filter P (insert_row r rs) = [r]"
  by (induction rs) (auto simp: filter_empty_conv)

text \<open>
  C1 (as amended). On a store whose table exists, while no connection that an earlier call
  left open holds the write lock and SQLite finds a rowid \<open>k\<close> for the new row (the largest
  id plus one, 1 for an empty table; an unused random id once the largest id is
  \<open>2^63 - 1\<close>), \<open>add_student\<close> with three text values stores exactly one new record,
  \<open>(k, name, grade, email)\<close>, and keeps all the others; \<open>k\<close> is an id that no stored record
  had; the call returns \<open>None\<close>, not the id; and a following \<open>view_students_db\<close> prints the
  records of the table, among them exactly one with id \<open>k\<close>, which is
  \<open>(k, name, grade, email)\<close>. While the largest id is below \<open>2^63 - 1\<close> the new record is
  the last of the table.
\<close>

theorem add_student_round_trip:
  assumes "disk w = Some rs" and "table_ok rs" and "\<not> write_lock w"
    and "new_rowid (rowid_rand w) rs = (Some k, d)"
    and "w' = snd (add_student (Some n) (Some g) (Some e) w)"
  shows "\<exists>rs'. add_student (Some n) (Some g) (Some e) w
                 = (Inr PyNone, w\<lparr>disk := Some rs', rowid_rand := d\<rparr>)
           \<and> k \<notin> set (map rid rs)
           \<and> set rs' = insert (k, Some n, Some g, Some e) (set rs)
           \<and> length rs' = Suc (length rs)
           \<and> filter (\<lambda>r. rid r = k) rs' = [(k, Some n, Some g, Some e)]
           \<and> view_students_db w' = (Inr PyNone, w'\<lparr>stdout := stdout w' @ map RowLine rs'\<rparr>)
           \<and> (rs = [] \<or> rid (last rs) < MAX_ROWID \<longrightarrow>
                k = (if rs = [] then 1 else rid (last rs) + 1)
                \<and> rs' = rs @ [(k, Some n, Some g, Some e)] \<and> d = rowid_rand w)"
proof -
  let ?r = "(k, Some n, Some g, Some e)"
  let ?rs' = "insert_row ?r rs"
  have 1: "add_student (Some n) (Some g) (Some e) w
             = (Inr PyNone, w\<lparr>disk := Some ?rs', rowid_rand := d\<rparr>)"
    by (simp add: add_student_Some[OF assms(1,3)] assms(4))
  have 2: "k \<notin> set (map rid rs)"
    using new_rowid_fresh[OF assms(2,4)] by simp
  then have "\<forall>x \<in> set rs. \<not> rid x = k" by auto
  then have 3: "filter (\<lambda>r. rid r = k) ?rs' = [?r]"
    by (intro filter_insert_row) (simp_all add: rid_def)
  have "disk w' = Some ?rs'" by (simp add: assms(5) 1)
  then have 4: "view_students_db w' = (Inr PyNone, w'\<lparr>stdout := stdout w' @ map RowLine ?rs'\<rparr>)"
    by (rule view_Some)
  have 5: "k = (if rs = [] then 1 else rid (last rs) + 1) \<and> ?rs' = rs @ [?r] \<and> d = rowid_rand w"
    if seq: "rs = [] \<or> rid (last rs) < MAX_ROWID"
  proof -
    from new_rowid_sequential[OF seq, of "rowid_rand w"] assms(4)
    have k: "k = (if rs = [] then 1 else rid (last rs) + 1)" and d: "d = rowid_rand w" by simp_all
    have "\<forall>x \<in> set rs. rid x < rid ?r"
      using largest_plus_one_fresh[OF assms(2)] k by (cases "rs = []") (auto simp: rid_def)
    then have "?rs' = rs @ [?r]" by (rule insert_row_last)
    with k d show ?thesis by simp
  qed
  have 6: "set ?rs' = insert ?r (set rs)" by (rule set_insert_row)
  have 7: "length ?rs' = Suc (length rs)" by (rule length_insert_row)
  from 5 have 8: "rs = [] \<or> rid (last rs) < MAX_ROWID \<longrightarrow>
      k = (if rs = [] then 1 else rid (last rs) + 1) \<and> ?rs' = rs @ [?r] \<and> d = rowid_rand w"
    by blast
  from 1 2 3 4 6 7 8 show ?thesis by blast
qed

theorem add_student_round_trip_witness:
  "add_student (Some ''Bob'') (Some ''B'') (Some ''bob@x.com'') store1
     = (Inr PyNone, store1\<lparr>disk := Some [(1, Some ''Ann'', Some ''A'', Some ''ann@x.com''),
                                           (2, Some ''Bob'', Some ''B'', Some ''bob@x.com'')]\<rparr>)
   \<and> disk (snd (add_student (Some ''Cy'') (Some ''C'') (Some ''cy@x.com'')
        (snd (add_student (Some ''Bob'') (Some ''B'') (Some ''bob@x.com'') store_high))))
     = Some [(5, Some ''Cy'', Some ''C'', Some ''cy@x.com''),
             (9223372036854775806, Some ''Ann'', Some ''A'', Some ''ann@x.com''),
             (9223372036854775807, Some ''Bob'', Some ''B'', Some ''bob@x.com'')]"
  using add_student_round_trip[of store1 "[(1, Some ''Ann'', Some ''A'', Some ''ann@x.com'')]" 2
      "\<lambda>i. 0" _ "''Bob''" "''B''" "''bob@x.com''", OF _ _ _ _ refl]
    add_student_round_trip[of "snd (add_student (Some ''Bob'') (Some ''B'') (Some ''bob@x.com'') store_high)"
      "[(9223372036854775806, Some ''Ann'', Some ''A'', Some ''ann@x.com''),
        (9223372036854775807, Some ''Bob'', Some ''B'', Some ''bob@x.com'')]" 5
      "\<lambda>i. 4" _ "''Cy''" "''C''" "''cy@x.com''", OF _ _ _ _ refl]
  by (simp add: store1_def store_high_def eval_defs)

text \<open>
  C1 as stated fails. The call returns \<open>None\<close> where the claim has it return the id 2 it
  assigned. And on a store whose table exists the call does not always store a record:
  after a Create with a null name has raised and left its connection open with the write
  lock, the next Create raises \<open>database is locked\<close> and stores nothing.
\<close>

theorem add_student_returns_id_counterexample:
  "fst (add_student (Some ''Bob'') (Some ''B'') (Some ''bob@x.com'') store1) \<noteq> Inr (PyInt 2)
   \<and> disk (snd (add_student (Some ''Bob'') (Some ''B'') (Some ''bob@x.com'') store1))
       = Some [(1, Some ''Ann'', Some ''A'', Some ''ann@x.com''), (2, Some ''Bob'', Some ''B'', Some ''bob@x.com'')]
   \<and> store1_leaked = store1\<lparr>open_conns := 1, write_lock := True\<rparr>
   \<and> add_student (Some ''Bob'') (Some ''B'') (Some ''bob@x.com'') store1_leaked
       = (Inl OperationalError, store1_leaked\<lparr>open_conns := 2\<rparr>)"
  by (simp add: store1_leaked_eq) (simp add: store1_def eval_defs)

subsection \<open>The ids that Create assigns\<close>














subsection \<open>Connections\<close>

text \<open>
  C3 (as amended). Every call of the back end (\<open>setup_table\<close>, \<open>add_student\<close>,
  \<open>view_students_db\<close>, \<open>update_student\<close>, \<open>delete_student\<close>) that returns has closed the
  connection it opened; a call whose statement raises leaves that connection open: the
  functions call \<open>close\<close> after \<open>execute\<close> and \<open>commit\<close>, outside any \<open>try\<close> or \<open>with\<close>.
\<close>

theorem connection_closed_unless_raised:
  "open_conns (snd (run_op x w)) = (if isl (fst (run_op x w)) then Suc (open_conns w) else open_conns w)"
proof (cases "disk w")
  case None
  show ?thesis
    by (cases x) (simp_all add: None add_student_None view_None update_None delete_None setup_table_eq)
next
  case (Some rs)
  show ?thesis
  proof (cases x)
    case (Create n g e)
    show ?thesis
    proof (cases "write_lock w")
      case True
      then show ?thesis by (simp add: Create add_student_locked[OF Some])
    next
      case False
      then show ?thesis
        by (cases "new_rowid (rowid_rand w) rs")
          (auto simp: Create add_student_Some[OF Some False] split: option.splits)
    qed
  qed (simp_all add: view_Some[OF Some] update_Some[OF Some] delete_Some[OF Some] setup_table_eq)
qed

theorem connection_closed_unless_raised_witness:
  "open_conns (snd (run_op (Create (Some ''Bob'') (Some ''B'') (Some ''bob@x.com'')) store1)) = 0
   \<and> open_conns (snd (run_op (Update 1 (Some ''Bob'') None (Some ''bob@x.com'')) store1)) = 1"
  using connection_closed_unless_raised[of "Create (Some ''Bob'') (Some ''B'') (Some ''bob@x.com'')" store1]
    connection_closed_unless_raised[of "Update 1 (Some ''Bob'') None (Some ''bob@x.com'')" store1]
  by (simp add: store1_def eval_defs)

text \<open>
  C3 as stated fails: a Create with a null name, or an Update that sets a null grade,
  raises \<open>IntegrityError\<close>, and the connection the call opened is still open afterwards.
\<close>

theorem connection_left_open_counterexample:
  "add_student None (Some ''B'') (Some ''bob@x.com'') store1
     = (Inl IntegrityError, store1\<lparr>open_conns := 1, write_lock := True\<rparr>)
   \<and> open_conns store1 = 0
   \<and> update_student 1 (Some ''Bob'') None (Some ''bob@x.com'') store1
     = (Inl IntegrityError, store1\<lparr>open_conns := 1, write_lock := True\<rparr>)"
  by (simp add: store1_def eval_defs)

subsection \<open>ReadAll\<close>

text \<open>
  C4 (as amended). In every store reached by any sequence of calls from a store as SQLite
  keeps it, and whose table exists, \<open>view_students_db\<close> raises no error, prints all the
  persisted records, one line each, in ascending order of their ids, and returns \<open>None\<close>
  (the records go to standard output, not to the caller); it leaves the persisted records
  and the open connections as they were, and with no records it prints nothing and
  changes nothing at all.
\<close>

theorem view_students_db_prints_in_id_order:
  assumes "store_ok w0" and "w = run_ops xs w0" and "disk w = Some rs"
  shows "view_students_db w = (Inr PyNone, w\<lparr>stdout := stdout w @ map RowLine rs\<rparr>)
       \<and> sorted_wrt (<) (map rid rs)
       \<and> disk (snd (view_students_db w)) = disk w
       \<and> open_conns (snd (view_students_db w)) = open_conns w
       \<and> (rs = [] \<longrightarrow> view_students_db w = (Inr PyNone, w))"
proof -
  have "store_ok w" using assms(1,2) by (simp add: store_ok_run_ops)
  then have "sorted_wrt (<) (map rid rs)" using assms(3) by (simp add: store_ok_def table_ok_def)
  then show ?thesis by (simp add: view_Some[OF assms(3)])
qed

theorem view_students_db_prints_in_id_order_witness:
  "view_students_db (run_ops [EnsureSchema, Create (Some ''Ann'') (Some ''A'') (Some ''ann@x.com''),
        Create (Some ''Bob'') (Some ''B'') (Some ''bob@x.com''), Delete 1,
        Create (Some ''Cy'') (Some ''C'') (Some ''cy@x.com'')] fresh)
    = (Inr PyNone, fresh\<lparr>disk := Some [(2, Some ''Bob'', Some ''B'', Some ''bob@x.com''),
                                           (3, Some ''Cy'', Some ''C'', Some ''cy@x.com'')],
         stdout := [RowLine (2, Some ''Bob'', Some ''B'', Some ''bob@x.com''),
                    RowLine (3, Some ''Cy'', Some ''C'', Some ''cy@x.com'')]\<rparr>)"
  using view_students_db_prints_in_id_order[of fresh _
      "[EnsureSchema, Create (Some ''Ann'') (Some ''A'') (Some ''ann@x.com''),
        Create (Some ''Bob'') (Some ''B'') (Some ''bob@x.com''), Delete 1,
        Create (Some ''Cy'') (Some ''C'') (Some ''cy@x.com'')]"
      "[(2, Some ''Bob'', Some ''B'', Some ''bob@x.com''), (3, Some ''Cy'', Some ''C'', Some ''cy@x.com'')]",
      OF _ refl]
  by (simp add: fresh_def eval_defs)

text \<open>
  C4 as stated fails: the call returns \<open>None\<close>, not the sequence of records, and it has
  an effect, the lines written to standard output.
\<close>

theorem view_students_db_returns_rows_counterexample:
  "fst (view_students_db store1) = Inr PyNone
   \<and> stdout (snd (view_students_db store1)) = [RowLine (1, Some ''Ann'', Some ''A'', Some ''ann@x.com'')]
   \<and> stdout store1 = []"
  by (simp add: store1_def eval_defs)

subsection \<open>Update and Delete\<close>

text \<open>
  C5 (as amended). In every store (as SQLite keeps it) that holds a record with id \<open>k\<close>,
  while no connection that an earlier call left open holds the write lock,
  \<open>update_student k\<close> with three text values returns normally and changes the table only
  in this: the record with id \<open>k\<close> becomes \<open>(k, name, grade, email)\<close>, all three fields
  replaced together, its id and position kept; every record with another id is unchanged,
  and exactly one record has id \<open>k\<close> afterwards.
\<close>

theorem update_student_overwrites_all_fields:
  assumes "disk w = Some rs" and "table_ok rs" and "k \<in> set (map rid rs)"
    and "\<not> write_lock w"
  shows "\<exists>rs'. update_student k (Some n) (Some g) (Some e) w = (Inr PyNone, w\<lparr>disk := Some rs'\<rparr>)
           \<and> length rs' = length rs
           \<and> (\<forall>i < length rs. rs' ! i = (if rid (rs ! i) = k then (k, Some n, Some g, Some e) else rs ! i))
           \<and> map rid rs' = map rid rs
           \<and> filter (\<lambda>r. rid r = k) rs' = [(k, Some n, Some g, Some e)]"
proof -
  let ?rs' = "map (set_fields k (Some n) (Some g) (Some e)) rs"
  have "in_int64 k" using assms(2,3) by (auto simp: table_ok_def list_all_iff)
  then have 1: "update_student k (Some n) (Some g) (Some e) w = (Inr PyNone, w\<lparr>disk := Some ?rs'\<rparr>)"
    using assms(4) by (simp add: update_Some[OF assms(1)])
  have 2: "\<forall>i < length rs. ?rs' ! i = (if rid (rs ! i) = k then (k, Some n, Some g, Some e) else rs ! i)"
    by (simp add: set_fields_def)
  have d: "distinct (map rid rs)"
    using assms(2) by (simp add: table_ok_def strict_sorted_iff)
  have 3: "filter (\<lambda>r. rid r = k) ?rs' = [(k, Some n, Some g, Some e)]"
    using d assms(3)
  proof (induction rs)
    case Nil
    then show ?case by simp
  next
    case (Cons a rs)
    show ?case
    proof (cases "rid a = k")
      case True
      with Cons.prems have "k \<notin> set (map rid rs)" by auto
      then have "filter (\<lambda>r. rid r = k) (map (set_fields k (Some n) (Some g) (Some e)) rs) = []"
        by (auto simp: filter_empty_conv rid_set_fields)
      moreover have "set_fields k (Some n) (Some g) (Some e) a = (k, Some n, Some g, Some e)"
        using True by (simp add: set_fields_def)
      moreover have "rid (k, Some n, Some g, Some e) = k" by (simp add: rid_def)
      ultimately show ?thesis by simp
    next
      case False
      then have "set_fields k (Some n) (Some g) (Some e) a = a" by (simp add: set_fields_def)
      with False Cons show ?thesis by simp
    qed
  qed
  from 1 2 3 show ?thesis by (intro exI[of _ ?rs']) (simp add: rid_set_fields)
qed

theorem update_student_overwrites_all_fields_witness:
  "update_student 1 (Some ''Ben'') (Some ''B'') (Some ''ben@x.com'') store1
     = (Inr PyNone, store1\<lparr>disk := Some [(1, Some ''Ben'', Some ''B'', Some ''ben@x.com'')]\<rparr>)"
  using update_student_overwrites_all_fields[of store1 "[(1, Some ''Ann'', Some ''A'', Some ''ann@x.com'')]" 1
      "''Ben''" "''B''" "''ben@x.com''"]
  by (simp add: store1_def eval_defs)

text \<open>
  C5 as stated fails: the store holds the record with id 1, but a Create with a null name
  has raised before and left its connection open with the write lock; the Update of
  record 1 then raises \<open>database is locked\<close> and the record keeps its old fields.
\<close>

theorem update_student_locked_counterexample:
  "store1_leaked = snd (add_student None (Some ''B'') (Some ''bob@x.com'') store1)
   \<and> disk store1_leaked = Some [(1, Some ''Ann'', Some ''A'', Some ''ann@x.com'')]
   \<and> update_student 1 (Some ''Ben'') (Some ''B'') (Some ''ben@x.com'') store1_leaked
       = (Inl OperationalError, store1_leaked\<lparr>open_conns := 2\<rparr>)"
  by (simp add: store1_leaked_def) (simp add: store1_def eval_defs)

text \<open>
  C6 (as amended). In every store whose table exists and holds no record with id \<open>k\<close>,
  for \<open>k\<close> in the signed 64-bit range and while no connection that an earlier call left
  open holds the write lock, \<open>update_student k\<close> (with any values) and \<open>delete_student k\<close>
  return normally and leave the whole world, so also the persisted records and what
  \<open>view_students_db\<close> prints, exactly as it was.
\<close>

theorem absent_id_is_no_op:
  assumes "disk w = Some rs" and "k \<notin> set (map rid rs)" and "in_int64 k"
    and "\<not> write_lock w"
  shows "update_student k n g e w = (Inr PyNone, w) \<and> delete_student k w = (Inr PyNone, w)"
proof -
  have "filter (\<lambda>r. rid r \<noteq> k) rs = rs" using assms(2) by (auto simp: filter_id_conv)
  then show ?thesis
    using assms by (simp add: update_Some[OF assms(1)] delete_Some[OF assms(1)] map_set_fields_absent)
qed

theorem absent_id_is_no_op_witness:
  "update_student 999 (Some ''Ben'') (Some ''B'') (Some ''ben@x.com'') store3 = (Inr PyNone, store3)
   \<and> delete_student 999 store3 = (Inr PyNone, store3)"
  using absent_id_is_no_op[of store3 _ 999 "Some ''Ben''" "Some ''B''" "Some ''ben@x.com''"]
  by (simp add: store3_def eval_defs)

text \<open>
  C6 as stated fails twice. For an integer outside the signed 64-bit range: no record has
  the id \<open>2^63\<close>, and both calls raise \<open>OverflowError\<close> when the id is bound to the
  statement. And after a Create with a null name has raised and left its connection open
  with the write lock: no record has the id 999, and both calls raise
  \<open>database is locked\<close>.
\<close>

theorem absent_id_overflow_counterexample:
  "9223372036854775808 \<notin> set (ids store3)
   \<and> update_student 9223372036854775808 (Some ''Ben'') (Some ''B'') (Some ''ben@x.com'') store3
       = (Inl OverflowError, store3\<lparr>open_conns := 1\<rparr>)
   \<and> delete_student 9223372036854775808 store3 = (Inl OverflowError, store3\<lparr>open_conns := 1\<rparr>)
   \<and> 999 \<notin> set (ids store1_leaked)
   \<and> update_student 999 (Some ''Ben'') (Some ''B'') (Some ''ben@x.com'') store1_leaked
       = (Inl OperationalError, store1_leaked\<lparr>open_conns := 2\<rparr>)
   \<and> delete_student 999 store1_leaked = (Inl OperationalError, store1_leaked\<lparr>open_conns := 2\<rparr>)"
  by (simp add: store1_leaked_eq) (simp add: store1_def store3_def eval_defs)

text \<open>
  C7 (as amended). In every store (as SQLite keeps it) that holds a record with id \<open>k\<close>,
  while no connection that an earlier call left open holds the write lock,
  \<open>delete_student k\<close> returns normally and removes exactly that record: the table
  afterwards holds exactly the records whose id differs from \<open>k\<close>, unchanged, it is one
  record shorter, and \<open>view_students_db\<close> then prints the remaining records in
  ascending order of their ids (it prints them and returns \<open>None\<close>).
\<close>

theorem delete_student_removes_one:
  assumes "disk w = Some rs" and "table_ok rs" and "k \<in> set (map rid rs)"
    and "\<not> write_lock w"
  shows "\<exists>rs'. delete_student k w = (Inr PyNone, w\<lparr>disk := Some rs'\<rparr>)
           \<and> (\<forall>r. r \<in> set rs' \<longleftrightarrow> r \<in> set rs \<and> rid r \<noteq> k)
           \<and> Suc (length rs') = length rs
           \<and> sorted_wrt (<) (map rid rs')
           \<and> view_students_db (w\<lparr>disk := Some rs'\<rparr>)
               = (Inr PyNone, w\<lparr>disk := Some rs', stdout := stdout w @ map RowLine rs'\<rparr>)"
proof -
  let ?rs' = "filter (\<lambda>r. rid r \<noteq> k) rs"
  have "in_int64 k" using assms(2,3) by (auto simp: table_ok_def list_all_iff)
  then have 1: "delete_student k w = (Inr PyNone, w\<lparr>disk := Some ?rs'\<rparr>)"
    using assms(4) by (simp add: delete_Some[OF assms(1)])
  have d: "distinct (map rid rs)"
    using assms(2) by (simp add: table_ok_def strict_sorted_iff)
  have 2: "Suc (length ?rs') = length rs"
    using d assms(3)
  proof (induction rs)
    case Nil
    then show ?case by simp
  next
    case (Cons a rs)
    show ?case
    proof (cases "rid a = k")
      case True
      with Cons.prems have "k \<notin> set (map rid rs)" by auto
      then have "filter (\<lambda>r. rid r \<noteq> k) rs = rs" by (auto simp: filter_id_conv)
      with True show ?thesis by simp
    next
      case False
      with Cons show ?thesis by simp
    qed
  qed
  have 3: "sorted_wrt (<) (map rid ?rs')"
    using table_ok_delete[OF assms(2)] by (simp add: table_ok_def)
  have 4: "view_students_db (w\<lparr>disk := Some ?rs'\<rparr>)
               = (Inr PyNone, w\<lparr>disk := Some ?rs', stdout := stdout w @ map RowLine ?rs'\<rparr>)"
    by (simp add: view_Some[of "w\<lparr>disk := Some ?rs'\<rparr>" ?rs'])
  from 1 2 3 4 show ?thesis by (intro exI[of _ ?rs']) simp
qed

theorem delete_student_removes_one_witness:
  "delete_student 2 store3
     = (Inr PyNone, store3\<lparr>disk := Some [(1, Some ''Ann'', Some ''A'', Some ''ann@x.com''),
                                           (3, Some ''Cy'', Some ''C'', Some ''cy@x.com'')]\<rparr>)"
  using delete_student_removes_one[of store3 _ 2]
  by (simp add: store3_def eval_defs)

text \<open>
  C7 as stated fails. After Delete(2) on the records 1, 2, 3 the read-all call does not
  return the remaining records: it prints them and returns \<open>None\<close>. And a Delete does not
  always remove the record: after a Create with a null name has raised and left its
  connection open with the write lock, the Delete of record 1 raises
  \<open>database is locked\<close> and the record stays.
\<close>

theorem delete_student_view_counterexample:
  "fst (view_students_db (snd (delete_student 2 store3))) = Inr PyNone
   \<and> stdout (snd (view_students_db (snd (delete_student 2 store3))))
       = [RowLine (1, Some ''Ann'', Some ''A'', Some ''ann@x.com''),
          RowLine (3, Some ''Cy'', Some ''C'', Some ''cy@x.com'')]
   \<and> disk store1_leaked = Some [(1, Some ''Ann'', Some ''A'', Some ''ann@x.com'')]
   \<and> delete_student 1 store1_leaked = (Inl OperationalError, store1_leaked\<lparr>open_conns := 2\<rparr>)"
  by (simp add: store1_leaked_eq) (simp add: store1_def store3_def eval_defs)

subsection \<open>Schema creation\<close>

lemma setup_table_twice: "snd (setup_table (snd (setup_table w))) = snd (setup_table w)"
  by (simp add: setup_table_eq)

lemma setup_table_times_Suc: "setup_table_times (Suc n) w = snd (setup_table w)"
  by (induction n arbitrary: w) (simp_all add: setup_table_twice)

text \<open>
  C8. For every \<open>N \<ge> 1\<close> and every prior state, calling \<open>setup_table\<close> \<open>N\<close> times
  leaves the same world as calling it once: the table exists (with the one shape the
  statement gives it, which is the type of the rows here), an existing table keeps exactly
  its rows, a missing one is created empty, and nothing else changes.
\<close>

theorem setup_table_idempotent:
  assumes "1 \<le> N"
  shows "setup_table_times N w = snd (setup_table w)
       \<and> fst (setup_table w) = Inr PyNone
       \<and> disk (snd (setup_table w)) = Some (case disk w of None \<Rightarrow> [] | Some rs \<Rightarrow> rs)
       \<and> (snd (setup_table w))\<lparr>disk := disk w\<rparr> = w"
proof -
  from assms obtain n where "N = Suc n" by (cases N) auto
  then have "setup_table_times N w = snd (setup_table w)"
    by (simp only: setup_table_times_Suc)
  then show ?thesis by (simp add: setup_table_eq)
qed

theorem setup_table_idempotent_witness:
  "setup_table_times 3 store3 = store3 \<and> setup_table_times 3 fresh = store0
   \<and> snd (setup_table fresh) = store0"
  using setup_table_idempotent[of 3 store3] setup_table_idempotent[of 3 fresh]
  by (simp add: store3_def store0_def fresh_def eval_defs)

subsection \<open>Ids typed at the menu\<close>

lemmas io_defs = user_choice_def py_input_def dispatch_def choice_add_def choice_view_def
  choice_update_def choice_delete_def print_menu_def py_print_def strip_def is_space_def
  lower_def lower_char_def upper_chars_def lower_chars_def py_int_def py_int_digits_def
  MAX_STR_DIGITS_def is_digit_def digit_val_def digits_val_def str_int_def

text \<open>
  What \<open>int\<close> makes of some texts after \<open>strip\<close>: a no-break space or a next-line
  character around the digits is white space, a fraction or a letter is refused.
\<close>

lemma py_int_examples:
  "py_int (strip [CHR 0xA0, CHR ''7'']) = Some 7" "py_int (strip [CHR ''7'', CHR 0x85]) = Some 7"
  "py_int (strip '' 1_0 '') = Some 10" "py_int (strip ''+007'') = Some 7"
  "py_int (strip ''1.5'') = None" "py_int (strip ''12a'') = None" "py_int (strip []) = None"
  "py_int (strip ''1__0'') = None" "py_int (strip ''- 5'') = None"
  by (simp_all add: io_defs)

text \<open>
  C9 (as amended). For every raw id text given to the Update or the Delete interaction
  that \<open>int\<close> refuses after \<open>strip\<close> (it is not an integer literal, that is an optional
  sign and decimal digits, or it has more than 4300 digits), the loop prints
  \<open>Invalid ID. Must be a number.\<close>, does not call the store operation (the file and the
  connections are as before, only prompts and that line were printed), and goes on with
  the next pass of the menu on the rest of the input.
\<close>

theorem invalid_id_reprompts:
  assumes "py_int (strip txt) = None"
  shows "(strip c = ''3'' \<longrightarrow>
            main_loop (c # txt # rest) w
              = main_loop rest (py_print (Line ''Invalid ID. Must be a number.'')
                  (py_print (Prompt ''Student ID to update: '')
                    (py_print (Prompt ''Choose an option (1-5): '') (print_menu w)))))
       \<and> (strip c = ''4'' \<longrightarrow>
            main_loop (c # txt # rest) w
              = main_loop rest (py_print (Line ''Invalid ID. Must be a number.'')
                  (py_print (Prompt ''Student ID to delete: '')
                    (py_print (Prompt ''Choose an option (1-5): '') (print_menu w)))))
       \<and> disk (py_print x (py_print y (py_print z (print_menu w)))) = disk w
       \<and> open_conns (py_print x (py_print y (py_print z (print_menu w)))) = open_conns w"
proof -
  have 3: "main_loop (c # txt # rest) w
              = main_loop rest (py_print (Line ''Invalid ID. Must be a number.'')
                  (py_print (Prompt ''Student ID to update: '')
                    (py_print (Prompt ''Choose an option (1-5): '') (print_menu w))))"
    if "strip c = ''3''"
    by (subst main_loop.simps)
      (simp add: user_choice_def py_input_def dispatch_def choice_update_def that assms)
  have 4: "main_loop (c # txt # rest) w
              = main_loop rest (py_print (Line ''Invalid ID. Must be a number.'')
                  (py_print (Prompt ''Student ID to delete: '')
                    (py_print (Prompt ''Choose an option (1-5): '') (print_menu w))))"
    if "strip c = ''4''"
    by (subst main_loop.simps)
      (simp add: user_choice_def py_input_def dispatch_def choice_delete_def that assms)
  have 5: "disk (py_print x (py_print y (py_print z (print_menu w)))) = disk w"
    "open_conns (py_print x (py_print y (py_print z (print_menu w)))) = open_conns w"
    by (simp_all add: py_print_def print_menu_def)
  from 3 4 5 show ?thesis by blast
qed

theorem invalid_id_reprompts_witness:
  "main_loop [''3'', ''abc'', ''4'', ''1.5'', ''5''] store1
     = (Inr PyNone, store1\<lparr>stdout :=
         [Line (CHR 0x0A # ''--- Student Database Menu ---''), Line ''1) Add students'',
          Line ''2) View students'', Line ''3) Update students'',
          Line ''4) Delete Students'', Line ''5) Exit'',
          Prompt ''Choose an option (1-5): '',
          Prompt ''Student ID to update: '',
          Line ''Invalid ID. Must be a number.'',
          Line (CHR 0x0A # ''--- Student Database Menu ---''), Line ''1) Add students'',
          Line ''2) View students'', Line ''3) Update students'',
          Line ''4) Delete Students'', Line ''5) Exit'',
          Prompt ''Choose an option (1-5): '',
          Prompt ''Student ID to delete: '',
          Line ''Invalid ID. Must be a number.'',
          Line (CHR 0x0A # ''--- Student Database Menu ---''), Line ''1) Add students'',
          Line ''2) View students'', Line ''3) Update students'',
          Line ''4) Delete Students'', Line ''5) Exit'',
          Prompt ''Choose an option (1-5): '', Line ''Exiting Program...'']\<rparr>)"
  using invalid_id_reprompts[of "''abc''" "''3''" "[''4'', ''1.5'', ''5'']" store1]
    invalid_id_reprompts[of "''1.5''" "''4''" "[''5'']"]
  by (simp add: io_defs store1_def main_loop.simps)

text \<open>
  C9 as stated fails: \<open>-5\<close> and \<open>0\<close> are not positive integers, yet \<open>int\<close> accepts
  them, no \<open>Invalid ID\<close> line is printed, and \<open>update_student\<close> and \<open>delete_student\<close>
  are called with them (the lines \<open>Student updated.\<close> and \<open>Student deleted.\<close> follow the
  calls).
\<close>

theorem nonpositive_id_reaches_store_counterexample:
  "py_int (strip ''-5'') = Some (- 5)
   \<and> choice_update [''-5'', ''Ben'', ''B'', ''ben@x.com''] store1
       = (Inr False, [], store1\<lparr>stdout :=
           [Prompt ''Student ID to update: '', Prompt ''New name: '', Prompt ''New grade: '',
            Prompt ''New email: '', Line ''Student updated.'']\<rparr>)
   \<and> py_int (strip ''0'') = Some 0
   \<and> choice_delete [''0'', ''y''] store1
       = (Inr False, [], store1\<lparr>stdout :=
           [Prompt ''Student ID to delete: '', Prompt ''Delete student 0? (y/n): '',
            Line ''Student deleted.'']\<rparr>)"
  by (simp add: io_defs store1_def eval_defs str_nat.simps)

subsection \<open>NOT NULL\<close>

lemma not_null_run_op: "not_null_store w \<Longrightarrow> not_null_store (snd (run_op x w))"
proof (cases "disk w")
  case None
  show ?thesis
    by (cases x) (simp_all add: None add_student_None view_None update_None delete_None
        setup_table_eq not_null_store_def)
next
  case (Some rs)
  assume "not_null_store w"
  then have nn: "list_all not_null_row rs" by (simp add: not_null_store_def Some)
  show ?thesis
  proof (cases x)
    case EnsureSchema
    then show ?thesis using nn by (simp add: setup_table_eq Some not_null_store_def)
  next
    case (Create n g e)
    then show ?thesis
      using nn add_student_disk[OF Some, of n g e]
      by (auto simp: not_null_store_def list_all_iff set_insert_row not_null_row_def)
  next
    case ReadAll
    then show ?thesis using nn by (simp add: view_Some[OF Some] Some not_null_store_def)
  next
    case (Update k n g e)
    show ?thesis
    proof (cases "k \<in> set (map rid rs)")
      case True
      then show ?thesis
        using nn Update update_student_disk[OF Some, of k n g e]
        by (auto simp: not_null_store_def list_all_iff set_fields_def not_null_row_def)
    next
      case False
      then show ?thesis
        using nn Update update_student_disk[OF Some, of k n g e]
        by (auto simp: not_null_store_def map_set_fields_absent)
    qed
  next
    case (Delete k)
    then show ?thesis
      using nn delete_student_disk[OF Some, of k]
      by (auto simp: not_null_store_def list_all_iff)
  qed
qed

lemma not_null_run_ops: "not_null_store w \<Longrightarrow> not_null_store (run_ops xs w)"
  by (induction xs arbitrary: w) (simp_all add: not_null_run_op)

text \<open>
  C10. In every state, a Create in which any of name, grade or email is \<open>None\<close> raises
  an error and leaves the persisted records unchanged; and no sequence of calls ever
  stores a record with a null field: if every stored record has its three text fields
  non-null (as in a new file), so has every record after any sequence of calls. The id of
  a row is an integer by its type.
\<close>

theorem add_student_rejects_null:
  "(n = None \<or> g = None \<or> e = None \<longrightarrow>
      isl (fst (add_student n g e w)) \<and> disk (snd (add_student n g e w)) = disk w)
   \<and> (not_null_store w \<longrightarrow> not_null_store (run_ops xs w))"
proof -
  have "isl (fst (add_student n g e w)) \<and> disk (snd (add_student n g e w)) = disk w"
    if "n = None \<or> g = None \<or> e = None"
  proof (cases "disk w")
    case None
    then show ?thesis by (simp add: add_student_None)
  next
    case (Some rs)
    show ?thesis
    proof (cases "write_lock w")
      case True
      then show ?thesis by (simp add: add_student_locked[OF Some])
    next
      case False
      with that show ?thesis
        by (cases "new_rowid (rowid_rand w) rs")
          (auto simp: add_student_Some[OF Some False] split: option.splits)
    qed
  qed
  then show ?thesis using not_null_run_ops by blast
qed

theorem add_student_rejects_null_witness:
  "add_student (Some ''Bob'') None (Some ''bob@x.com'') store1
     = (Inl IntegrityError, store1\<lparr>open_conns := 1, write_lock := True\<rparr>)
   \<and> not_null_store (run_ops [Create (Some ''Bob'') (Some ''B'') (Some ''bob@x.com''),
        Update 7 None None None, Update 1 None (Some ''A'') (Some ''ann@x.com''),
        Create (Some ''Cy'') (Some ''C'') (Some ''cy@x.com'')] store1)
   \<and> disk (run_ops [Create (Some ''Bob'') (Some ''B'') (Some ''bob@x.com''),
        Update 7 None None None, Update 1 None (Some ''A'') (Some ''ann@x.com''),
        Create (Some ''Cy'') (Some ''C'') (Some ''cy@x.com'')] store1)
      = Some [(1, Some ''Ann'', Some ''A'', Some ''ann@x.com''), (2, Some ''Bob'', Some ''B'', Some ''bob@x.com'')]"
  using add_student_rejects_null[of "Some ''Bob''" None "Some ''bob@x.com''" store1
      "[Create (Some ''Bob'') (Some ''B'') (Some ''bob@x.com''),
        Update 7 None None None, Update 1 None (Some ''A'') (Some ''ann@x.com''),
        Create (Some ''Cy'') (Some ''C'') (Some ''cy@x.com'')]"]
  by (simp add: store1_def eval_defs)

end
